theory Spec2Isabelle
  imports Complex_Main
begin

section \<open>JavaScript strings\<close>

text \<open>
  A JavaScript string is modelled as a \<^typ>\<open>string\<close>: one \<^typ>\<open>char\<close> per UTF-16 code
  unit, for the code units below 256 (Latin-1). \<open>length\<close> is then \<open>String.length\<close>.
\<close>

definition isWhiteSpace :: "char \<Rightarrow> bool" where
  \<comment> \<open>WhiteSpace and LineTerminator code units below 256: TAB, LF, VT, FF, CR, SP, NBSP.\<close>
  "isWhiteSpace c =
     (c \<in> set [CHR 0x09, CHR 0x0A, CHR 0x0B, CHR 0x0C, CHR 0x0D, CHR 0x20, CHR 0xA0])"

definition trim :: "string \<Rightarrow> string" where
  \<comment> \<open>\<open>String.prototype.trim\<close>\<close>
  "trim s = rev (dropWhile isWhiteSpace (rev (dropWhile isWhiteSpace s)))"

definition lowerChar :: "char \<Rightarrow> char" where
  \<comment> \<open>A-Z, and the Latin-1 capitals U+00C0..U+00DE except the multiplication sign U+00D7.\<close>
  "lowerChar c =
     (let n = (of_char c :: nat)
      in if (65 \<le> n \<and> n \<le> 90) \<or> (192 \<le> n \<and> n \<le> 222 \<and> n \<noteq> 215)
         then char_of (n + 32) else c)"

definition toLowerCase :: "string \<Rightarrow> string" where
  "toLowerCase s = map lowerChar s"

fun startsWith :: "string \<Rightarrow> string \<Rightarrow> bool" where
  "startsWith s [] = True"
| "startsWith [] (p # ps) = False"
| "startsWith (c # cs) (p # ps) = (c = p \<and> startsWith cs ps)"

fun js_includes :: "string \<Rightarrow> string \<Rightarrow> bool" where
  \<comment> \<open>\<open>String.prototype.includes\<close>: the second string occurs at some position of the first.\<close>
  "js_includes [] sub = (sub = [])"
| "js_includes (c # cs) sub = (startsWith (c # cs) sub \<or> js_includes cs sub)"

definition isPunct :: "char \<Rightarrow> bool" where
  \<comment> \<open>the character class \<open>[.!?]\<close>\<close>
  "isPunct c = (c = CHR ''.'' \<or> c = CHR ''!'' \<or> c = CHR ''?'')"

fun splitRuns :: "bool \<Rightarrow> string \<Rightarrow> string \<Rightarrow> string list" where
  \<comment> \<open>\<open>text.split(/[.!?]+/)\<close>: the flag says that the scan is inside a run of separators,
      the second argument is the piece read so far.\<close>
  "splitRuns inSep cur [] = [cur]"
| "splitRuns inSep cur (c # cs) =
     (if isPunct c
      then (if inSep then splitRuns True [] cs else cur # splitRuns True [] cs)
      else splitRuns False (cur @ [c]) cs)"

definition splitSentences :: "string \<Rightarrow> string list" where
  "splitSentences txt = splitRuns False [] txt"

definition endsWithPunct :: "string \<Rightarrow> bool" where
  \<comment> \<open>\<open>s.match(/[.!?]$/)\<close> is not null\<close>
  "endsWithPunct s = (s \<noteq> [] \<and> isPunct (last s))"

section \<open>Per-sentence style classifier (speakReceivedMessageWithDynamicStyles)\<close>

record styledPart =
  part_text :: string
  style :: string
  degree :: string

definition styleSentence :: "string \<Rightarrow> styledPart option" where
  \<comment> \<open>the callback of \<open>sentences.map\<close>; \<open>None\<close> is the \<open>null\<close> that \<open>filter(Boolean)\<close> drops\<close>
  "styleSentence sentence =
     (let trimmedSentence = trim sentence in
      if trimmedSentence = [] then None
      else
        let finalSentence = trimmedSentence @ (if endsWithPunct trimmedSentence then [] else ''.'');
            lowerSentence = toLowerCase trimmedSentence
        in
        if js_includes lowerSentence ''good morning'' \<or>
           js_includes lowerSentence ''hello'' \<or>
           js_includes lowerSentence ''have a great'' \<or>
           js_includes lowerSentence ''wishing you'' \<or>
           js_includes lowerSentence ''hope you'' \<or>
           js_includes lowerSentence ''enjoy''
        then Some \<lparr>part_text = finalSentence, style = ''cheerful'', degree = ''1.4''\<rparr>
        else if js_includes lowerSentence ''weather'' \<or>
           js_includes lowerSentence ''temperature'' \<or>
           js_includes lowerSentence ''rain'' \<or>
           js_includes lowerSentence ''cloudy'' \<or>
           js_includes lowerSentence ''sunny'' \<or>
           js_includes lowerSentence ''degrees''
        then Some \<lparr>part_text = finalSentence, style = ''friendly'', degree = ''1.2''\<rparr>
        else if js_includes lowerSentence ''schedule'' \<or>
           js_includes lowerSentence ''appointment'' \<or>
           js_includes lowerSentence ''meeting'' \<or>
           js_includes lowerSentence ''office'' \<or>
           js_includes lowerSentence ''plan to leave'' \<or>
           (js_includes lowerSentence ''time'' \<and>
              (js_includes lowerSentence ''am'' \<or> js_includes lowerSentence ''pm''))
        then Some \<lparr>part_text = finalSentence, style = ''assistant'', degree = ''1.1''\<rparr>
        else if js_includes lowerSentence ''remember'' \<or>
           js_includes lowerSentence ''don't forget'' \<or>
           js_includes lowerSentence ''make sure'' \<or>
           js_includes lowerSentence ''important'' \<or>
           js_includes lowerSentence ''please'' \<or>
           js_includes lowerSentence ''should''
        then Some \<lparr>part_text = finalSentence, style = ''empathetic'', degree = ''1.3''\<rparr>
        else if js_includes lowerSentence ''suggest'' \<or>
           js_includes lowerSentence ''recommend'' \<or>
           js_includes lowerSentence ''might'' \<or>
           js_includes lowerSentence ''consider'' \<or>
           js_includes lowerSentence ''try''
        then Some \<lparr>part_text = finalSentence, style = ''hopeful'', degree = ''1.2''\<rparr>
        else if js_includes lowerSentence ''let me know'' \<or>
           js_includes lowerSentence ''if you need'' \<or>
           js_includes lowerSentence ''help'' \<or>
           js_includes lowerSentence ''anything else'' \<or>
           js_includes lowerSentence ''feel free''
        then Some \<lparr>part_text = finalSentence, style = ''friendly'', degree = ''1.4''\<rparr>
        else if js_includes lowerSentence ''great'' \<or>
           js_includes lowerSentence ''excellent'' \<or>
           js_includes lowerSentence ''wonderful'' \<or>
           js_includes lowerSentence ''perfect'' \<or>
           js_includes lowerSentence ''amazing''
        then Some \<lparr>part_text = finalSentence, style = ''excited'', degree = ''1.3''\<rparr>
        else Some \<lparr>part_text = finalSentence, style = ''friendly'', degree = ''1.2''\<rparr>)"

definition styledParts :: "string \<Rightarrow> styledPart list" where
  \<comment> \<open>\<open>text.split(/[.!?]+/).filter(s => s.trim().length > 0).map(...).filter(Boolean)\<close>\<close>
  "styledParts txt =
     List.map_filter styleSentence
       (filter (\<lambda>s. length (trim s) > 0) (splitSentences txt))"

section \<open>JavaScript values\<close>

text \<open>
  The payload of a message has the type \<open>any\<close>. The values that can come off the wire or
  out of \<open>JSON.parse\<close> are modelled; an object is the list of its own properties.
\<close>

datatype jsval =
    JUndefined
  | JNull
  | JBool bool
  | JNum rat
  | JStr string
  | JArr "jsval list"
  | JObj "(string \<times> jsval) list"

fun truthy :: "jsval \<Rightarrow> bool" where
  "truthy JUndefined = False"
| "truthy JNull = False"
| "truthy (JBool b) = b"
| "truthy (JNum n) = (n \<noteq> 0)"
| "truthy (JStr s) = (s \<noteq> [])"
| "truthy (JArr xs) = True"
| "truthy (JObj kvs) = True"

fun getProp :: "jsval \<Rightarrow> string \<Rightarrow> jsval" where
  \<comment> \<open>\<open>v.k\<close> for the keys \<open>message\<close>, \<open>data\<close> and \<open>text\<close>, on a value other than \<open>null\<close> and
      \<open>undefined\<close>: only an object can have such a property.\<close>
  "getProp (JObj kvs) k = (case map_of kvs k of Some v \<Rightarrow> v | None \<Rightarrow> JUndefined)"
| "getProp v k = JUndefined"

definition js_or :: "jsval \<Rightarrow> jsval \<Rightarrow> jsval" where
  \<comment> \<open>\<open>a || b\<close>\<close>
  "js_or a b = (if truthy a then a else b)"

fun isString :: "jsval \<Rightarrow> bool" where
  \<comment> \<open>\<open>typeof v === 'string'\<close>\<close>
  "isString (JStr s) = True"
| "isString v = False"

fun isObject :: "jsval \<Rightarrow> bool" where
  \<comment> \<open>\<open>typeof v === 'object'\<close>\<close>
  "isObject JNull = True"
| "isObject (JArr xs) = True"
| "isObject (JObj kvs) = True"
| "isObject v = False"

section \<open>The connection hook (useDirectWebPubSubClient)\<close>

record DirectWebPubSubConfig =
  endpoint :: string
  hubName :: string
  clientUrl :: "string option"
  groups :: "string list"

text \<open>Calls made on the \<open>WebPubSubClient\<close> object, the only way to the network.\<close>

datatype net_call =
    NetStart string
  | NetStop
  | NetJoinGroup string
  | NetSendToGroup string jsval string
  | NetSendEvent string jsval string

text \<open>
  The state of the hook: the React state variables \<open>client\<close>, \<open>isConnected\<close>,
  \<open>isConnecting\<close>, \<open>connectionError\<close>, the refs, and what the hook has done to the outside:
  the calls on the client, the sends that the mock path only logged, and the errors passed
  to \<open>onError\<close>. A client object is identified by the URL it was created with.
  A callback reads the state variables as constants of the render that built it: a
  \<open>setIsConnecting\<close> or \<open>setIsConnected\<close> does not change what a callback already built
  reads. What the guard of \<open>connectInternal\<close> reads is therefore an argument of the model
  (\<open>isConnecting_c\<close>, \<open>isConnected_c\<close>), apart from the state that the setters write.
\<close>

record hstate =
  client :: "string option"
  isConnected :: bool
  isConnecting :: bool
  connectionError :: "string option"
  clientRef :: "string option"
  isManualDisconnectRef :: bool
  reconnectAttempts :: nat
  net :: "net_call list"
  mockSends :: "(string \<times> jsval \<times> string) list"
  reported :: "string list"

definition hook_init :: hstate where
  "hook_init = \<lparr>client = None, isConnected = False, isConnecting = False,
     connectionError = None, clientRef = None, isManualDisconnectRef = False,
     reconnectAttempts = 0, net = [], mockSends = [], reported = []\<rparr>"

datatype start_outcome = Started | StartFailed string

definition connectCatch :: "string \<Rightarrow> hstate \<Rightarrow> hstate" where
  \<comment> \<open>the \<open>catch\<close> block of \<open>connectInternal\<close>, on the message of the error caught\<close>
  "connectCatch errorMessage st =
     (if js_includes errorMessage ''Authentication failed'' \<or>
         js_includes errorMessage ''no valid credentials''
      then st\<lparr>connectionError :=
                 Some ''WebPubSub requires authentication. Running in development mode.'',
               isConnected := True, isConnecting := False\<rparr>
      else if js_includes errorMessage ''Insufficient resources'' \<or>
              js_includes errorMessage ''insufficient resources''
      then st\<lparr>connectionError :=
                 Some ''Azure Web PubSub service is at capacity. Running in development mode.'',
               isConnected := True, isConnecting := False\<rparr>
      else st\<lparr>connectionError := Some errorMessage, isConnecting := False,
               reported := reported st @ [errorMessage]\<rparr>)"

definition connectInternal ::
  "bool \<Rightarrow> bool \<Rightarrow> DirectWebPubSubConfig \<Rightarrow> start_outcome \<Rightarrow> hstate \<Rightarrow> hstate" where
  \<comment> \<open>\<open>isConnecting_c\<close> and \<open>isConnected_c\<close> are the constants of the closure that the guard
      tests; \<open>outcome\<close> is how \<open>await webPubSubClient.start()\<close> ends. With \<open>Started\<close> the
      result is also the state while \<open>start()\<close> is awaited: nothing follows the \<open>await\<close>.\<close>
  "connectInternal isConnecting_c isConnected_c config outcome st =
     (if isConnecting_c \<or> isConnected_c then st
      else
        let st1 = st\<lparr>isConnecting := True, connectionError := None,
                      isManualDisconnectRef := False\<rparr>
        in case clientUrl config of
             None \<Rightarrow> connectCatch
               ''Client URL with JWT token is required. Please provide VITE_WEBPUBSUB_CLIENT_URL''
               st1
           | Some u \<Rightarrow>
               if u = [] then connectCatch
                 ''Client URL with JWT token is required. Please provide VITE_WEBPUBSUB_CLIENT_URL''
                 st1
               else
                 let st2 = st1\<lparr>clientRef := Some u, client := Some u,
                                net := net st1 @ [NetStart u]\<rparr>
                 in (case outcome of
                       Started \<Rightarrow> st2
                     | StartFailed errorMessage \<Rightarrow> connectCatch errorMessage st2))"

definition on_connected :: "DirectWebPubSubConfig \<Rightarrow> hstate \<Rightarrow> hstate" where
  \<comment> \<open>the \<open>connected\<close> event; a failed join is logged only\<close>
  "on_connected config st =
     st\<lparr>isConnected := True, isConnecting := False, connectionError := None,
        reconnectAttempts := 0, net := net st @ map NetJoinGroup (groups config)\<rparr>"

definition on_disconnected :: "hstate \<Rightarrow> hstate" where
  "on_disconnected st =
     st\<lparr>isConnected := False, isConnecting := False,
        connectionError := Some ''Connection lost. Manual reconnection required.''\<rparr>"

definition on_stopped :: "hstate \<Rightarrow> hstate" where
  "on_stopped st =
     st\<lparr>isConnected := False, isConnecting := False, client := None, clientRef := None\<rparr>"

definition disconnect :: "hstate \<Rightarrow> hstate" where
  "disconnect st =
     (let st1 = st\<lparr>isManualDisconnectRef := True\<rparr>;
          st2 = (case clientRef st1 of
                   None \<Rightarrow> st1
                 | Some c \<Rightarrow> st1\<lparr>net := net st1 @ [NetStop], clientRef := None\<rparr>)
      in st2\<lparr>isConnected := False, isConnecting := False, client := None\<rparr>)"

text \<open>
  \<open>sendToGroup\<close> of the hook. Which send methods the client object has is probed at run
  time; \<open>outcome\<close> is how the awaited call on the client ends.
\<close>

record client_methods =
  has_sendToGroup :: bool
  has_sendEvent :: bool

datatype send_outcome = SendOk | SendFailed string

definition send_result :: "send_outcome \<Rightarrow> string + unit" where
  "send_result outcome = (case outcome of SendOk \<Rightarrow> Inr () | SendFailed e \<Rightarrow> Inl e)"

definition sendToGroup ::
  "client_methods \<Rightarrow> send_outcome \<Rightarrow> string \<Rightarrow> jsval \<Rightarrow> string \<Rightarrow> hstate
     \<Rightarrow> (string + unit) \<times> hstate" where
  "sendToGroup methods outcome grp message dataType st =
     (case clientRef st of
        None \<Rightarrow> (Inr (), st\<lparr>mockSends := mockSends st @ [(grp, message, dataType)]\<rparr>)
      | Some c \<Rightarrow>
          if has_sendToGroup methods
          then (send_result outcome,
                st\<lparr>net := net st @ [NetSendToGroup grp message dataType]\<rparr>)
          else if has_sendEvent methods
          then (send_result outcome,
                st\<lparr>net := net st @
                   [NetSendEvent ''message''
                      (JObj [(''type'', JStr ''groupMessage''), (''group'', JStr grp),
                             (''message'', message), (''dataType'', JStr dataType)])
                      ''json'']\<rparr>)
          else (Inl ''No send method available on WebPubSub client'', st))"

section \<open>The session coordinator (VoiceChatSimple): data\<close>

datatype sender = User | Cortana

text \<open>
  A message id is a string built from a clock reading and a random suffix, or the id the
  inbound message came with; the parts are kept apart.
\<close>

datatype message_id =
    IdGiven string
  | IdNow int
  | IdSent int string
  | IdReceived int string

record Message =
  msg_id :: message_id
  msg_text :: jsval
  sender :: sender
  timestamp :: int
  isAudio :: bool
  processing :: bool

datatype toast = ToastError string | ToastInfo string | ToastSuccess string

datatype message_type =
  TypeText | TypeAudio | TypeSystem | TypeError | TypeBroadcast | GroupMessage | ServerMessage

record DirectWebPubSubMessage =
  dm_id :: string
  dm_type :: message_type
  payload :: jsval
  dm_timestamp :: int

text \<open>
  A recognition object with its handlers. The handlers are closures built inside one call
  of \<open>startRecording\<close>: the \<open>isRecording\<close> they read is the constant of the render that
  built that \<open>startRecording\<close>, kept here as \<open>closure_isRecording\<close>.
\<close>

record recognition =
  rec_continuous :: bool
  rec_interimResults :: bool
  closure_isRecording :: bool

datatype engine_call = EngineStart | EngineStop

text \<open>
  The state of the component: the message log, the refs, the React state variables that the
  handlers set, and what the component has done to the outside: toasts shown, texts handed
  to \<open>speakMessage\<close>, calls of the hook's \<open>sendToGroup\<close>, calls on the recognition engine,
  and the restart timers that are pending. Clock values are milliseconds.
\<close>

record vstate =
  messages :: "Message list"
  lastProcessedRef :: "(string \<times> int) option"
  connectionStateRef :: "bool \<times> int"
  isRecording :: bool
  isTranscribing :: bool
  isInitializingRef :: bool
  isAwaitingDailyActivities :: bool
  recognitionRef :: "recognition option"
  toasts :: "toast list"
  spoken :: "string list"
  sent :: "(string \<times> string \<times> string) list"
  engine :: "engine_call list"
  restartTimers :: "recognition list"

definition vstate_init :: vstate where
  "vstate_init = \<lparr>messages = [], lastProcessedRef = None, connectionStateRef = (False, 0),
     isRecording = False, isTranscribing = False, isInitializingRef = False,
     isAwaitingDailyActivities = False, recognitionRef = None, toasts = [], spoken = [],
     sent = [], engine = [], restartTimers = []\<rparr>"

definition updateConnectionStateRef :: "bool \<Rightarrow> int \<Rightarrow> vstate \<Rightarrow> vstate" where
  \<comment> \<open>the effect on \<open>[isConnected, isConnecting]\<close>\<close>
  "updateConnectionStateRef connected_now t st = st\<lparr>connectionStateRef := (connected_now, t)\<rparr>"

section \<open>Inbound group messages (handleWebSocketMessage)\<close>

text \<open>
  What the handler gets from the run time: the clock at the echo check, the clock and the
  random suffix for the id and timestamp of the new entry, and the results of the library
  calls it may make on \<open>messageData\<close>: \<open>JSON.parse\<close> (\<open>None\<close> when it throws),
  \<open>JSON.stringify\<close> and \<open>String\<close>.
\<close>

record inbound_env =
  in_now :: int
  in_stamp :: int
  in_rnd :: string
  parseResult :: "jsval option"
  stringifyResult :: string
  stringResult :: string

definition messageData :: "jsval \<Rightarrow> jsval" where
  \<comment> \<open>\<open>message.payload.message || message.payload.data || message.payload\<close>\<close>
  "messageData p = js_or (js_or (getProp p ''message'') (getProp p ''data'')) p"

definition isOwnEcho :: "(string \<times> int) option \<Rightarrow> jsval \<Rightarrow> int \<Rightarrow> bool" where
  "isOwnEcho recentSentMessage md t =
     (case recentSentMessage of
        None \<Rightarrow> False
      | Some (txt, ts) \<Rightarrow>
          (case md of JStr s \<Rightarrow> s = txt \<and> t - ts < 10000 | _ \<Rightarrow> False))"

definition looksLikeUserInput :: "jsval \<Rightarrow> bool" where
  "looksLikeUserInput md =
     (case md of
        JStr s \<Rightarrow> length s < 100 \<and>
          (js_includes (toLowerCase s) ''good morning'' \<or>
           js_includes (toLowerCase s) ''hello'' \<or>
           js_includes (toLowerCase s) ''hi there'')
      | _ \<Rightarrow> False)"

definition nullish :: "jsval \<Rightarrow> bool" where
  "nullish v = (v = JNull \<or> v = JUndefined)"

definition extractText :: "inbound_env \<Rightarrow> jsval \<Rightarrow> jsval" where
  \<comment> \<open>\<open>messageText\<close>; reading a property of \<open>null\<close> throws inside the inner \<open>try\<close>, whose
      \<open>catch\<close> takes the raw string\<close>
  "extractText env md =
     (case md of
        JStr s \<Rightarrow>
          (case parseResult env of
             None \<Rightarrow> JStr s
           | Some parsedData \<Rightarrow>
               if nullish parsedData then JStr s
               else if truthy (getProp parsedData ''data'') then getProp parsedData ''data''
               else if truthy (getProp parsedData ''text'') then getProp parsedData ''text''
               else JStr s)
      | _ \<Rightarrow>
          if truthy md \<and> isObject md
          then js_or (js_or (getProp md ''data'') (getProp md ''text''))
                 (JStr (stringifyResult env))
          else JStr (if truthy md then stringResult env else []))"

definition handleWebSocketMessage ::
  "bool \<Rightarrow> inbound_env \<Rightarrow> DirectWebPubSubMessage \<Rightarrow> vstate \<Rightarrow> vstate" where
  \<comment> \<open>\<open>awaiting\<close> is \<open>isAwaitingDailyActivities\<close> as the closure of the handler has it. A
      \<open>messageText\<close> that is not a string makes \<open>messageText.substring\<close> throw after the
      entry is appended; the outer \<open>catch\<close> only logs.\<close>
  "handleWebSocketMessage awaiting env message st =
     (if dm_type message = GroupMessage \<and> truthy (payload message)
      then
        let md = messageData (payload message) in
        if isOwnEcho (lastProcessedRef st) md (in_now env) then st
        else if looksLikeUserInput md then st
        else
          let messageText = extractText env md;
              receivedMessage =
                \<lparr>msg_id = (if dm_id message \<noteq> [] then IdGiven (dm_id message)
                            else IdReceived (in_stamp env) (in_rnd env)),
                 msg_text = messageText, sender = Cortana,
                 timestamp = (if dm_timestamp message \<noteq> 0 then dm_timestamp message
                              else in_stamp env),
                 isAudio = False, processing = False\<rparr>;
              st1 = st\<lparr>messages := messages st @ [receivedMessage]\<rparr>
          in case messageText of
               JStr t \<Rightarrow>
                 let st2 = st1\<lparr>spoken := spoken st1 @ [t]\<rparr>
                 in if awaiting
                    then st2\<lparr>isAwaitingDailyActivities := False,
                             toasts := toasts st2 @ [ToastSuccess ''Daily activities received!'']\<rparr>
                    else st2\<lparr>toasts := toasts st2 @ [ToastInfo ''New message received!'']\<rparr>
             | _ \<Rightarrow> st1
      else st)"

section \<open>Outbound transcripts (processTranscript)\<close>

text \<open>
  \<open>processTranscript\<close> is asynchronous: it runs to \<open>await sendToGroup(...)\<close>, and resumes
  when that promise settles. The two parts are modelled apart, so that other handlers can
  run in between. \<open>connected_c\<close> is \<open>isConnected\<close> as the closure has it.
\<close>

record transcript_env =
  now :: int
  stamp :: int
  checkTime :: int

record resume_env =
  sentStamp :: int
  sentRnd :: string
  echoTime :: int

datatype send_settled = Resolved | RejectedError string | RejectedOther

definition isDuplicate :: "(string \<times> int) option \<Rightarrow> string \<Rightarrow> int \<Rightarrow> bool" where
  "isDuplicate lastProcessed transcript t =
     (case lastProcessed of
        None \<Rightarrow> False
      | Some (txt, ts) \<Rightarrow> txt = trim transcript \<and> t - ts < 2000)"

definition processTranscript_begin ::
  "bool \<Rightarrow> transcript_env \<Rightarrow> string \<Rightarrow> vstate \<Rightarrow> vstate \<times> bool" where
  \<comment> \<open>up to the \<open>await\<close>; the flag says that \<open>sendToGroup\<close> was called and is awaited\<close>
  "processTranscript_begin connected_c env transcript st =
     (if trim transcript = [] then (st, False)
      else if isDuplicate (lastProcessedRef st) transcript (now env) then (st, False)
      else
        let st1 = st\<lparr>lastProcessedRef := Some (trim transcript, now env),
                      isTranscribing := True\<rparr>;
            userMessage =
              \<lparr>msg_id = IdNow (stamp env), msg_text = JStr transcript, sender = User,
               timestamp = stamp env, isAudio = False, processing = False\<rparr>;
            st2 = st1\<lparr>messages := messages st1 @ [userMessage]\<rparr>;
            actuallyConnected = (connected_c \<or> fst (connectionStateRef st2));
            recentConnection = (checkTime env - snd (connectionStateRef st2) < 5000)
        in if \<not> actuallyConnected \<and> \<not> recentConnection
           then (st2\<lparr>toasts := toasts st2 @
                        [ToastError
                          ''Not connected to WebPubSub. Please wait for connection and try again.''],
                     isTranscribing := False\<rparr>, False)
           else (st2\<lparr>sent := sent st2 @ [(''cortana-users'', transcript, ''text'')]\<rparr>, True))"

definition processTranscript_resume ::
  "send_settled \<Rightarrow> resume_env \<Rightarrow> string \<Rightarrow> vstate \<Rightarrow> vstate" where
  \<comment> \<open>after the \<open>await\<close>, on how the promise of \<open>sendToGroup\<close> settled\<close>
  "processTranscript_resume settled env transcript st =
     (case settled of
        Resolved \<Rightarrow>
          let sentMessage =
                \<lparr>msg_id = IdSent (sentStamp env) (sentRnd env), msg_text = JStr transcript,
                 sender = User, timestamp = sentStamp env, isAudio = True,
                 processing = False\<rparr>;
              st1 = st\<lparr>messages := messages st @ [sentMessage]\<rparr>;
              st2 = (if js_includes (toLowerCase transcript) ''good morning''
                     then st1\<lparr>isAwaitingDailyActivities := True\<rparr> else st1);
              st3 = st2\<lparr>lastProcessedRef := Some (transcript, echoTime env)\<rparr>
          in st3\<lparr>toasts := toasts st3 @ [ToastSuccess ''Voice message sent!''],
                 isTranscribing := False\<rparr>
      | RejectedError m \<Rightarrow>
          st\<lparr>toasts := toasts st @ [ToastError (''Failed to send voice message: '' @ m)],
             isTranscribing := False\<rparr>
      | RejectedOther \<Rightarrow>
          st\<lparr>toasts := toasts st @ [ToastError ''Failed to send voice message''],
             isTranscribing := False\<rparr>)"

definition processTranscript ::
  "bool \<Rightarrow> transcript_env \<Rightarrow> send_settled \<Rightarrow> resume_env \<Rightarrow> string \<Rightarrow> vstate \<Rightarrow> vstate" where
  \<comment> \<open>a whole run, with no other handler in between\<close>
  "processTranscript connected_c env settled renv transcript st =
     (case processTranscript_begin connected_c env transcript st of
        (st1, awaited) \<Rightarrow>
          if awaited then processTranscript_resume settled renv transcript st1 else st1)"

definition finalTranscriptOf :: "(string \<times> bool) list \<Rightarrow> string" where
  \<comment> \<open>the loop of \<open>recognition.onresult\<close>: the first alternative of every final result\<close>
  "finalTranscriptOf results = concat (map fst (filter snd results))"

definition onresult ::
  "bool \<Rightarrow> transcript_env \<Rightarrow> send_settled \<Rightarrow> resume_env \<Rightarrow> (string \<times> bool) list
     \<Rightarrow> vstate \<Rightarrow> vstate" where
  "onresult connected_c env settled renv results st =
     (let finalTranscript = finalTranscriptOf results
      in if trim finalTranscript \<noteq> []
         then processTranscript connected_c env settled renv (trim finalTranscript) st
         else st)"

section \<open>Capture lifecycle (startRecording, stopRecording, the engine's events)\<close>

record capture_env =
  speechRecognitionSupported :: bool
  microphoneGranted :: bool
  advancedConfigOk :: bool
  startOk :: bool

definition startRecording :: "bool \<Rightarrow> capture_env \<Rightarrow> vstate \<Rightarrow> vstate" where
  \<comment> \<open>\<open>isRecording_c\<close> is \<open>isRecording\<close> as the closure of this \<open>startRecording\<close> has it; the
      handlers installed on the new recognition object share that closure\<close>
  "startRecording isRecording_c env st =
     (if isRecording_c \<or> isInitializingRef st then st
      else
        let st1 = st\<lparr>isInitializingRef := True\<rparr>
        in if \<not> speechRecognitionSupported env
           then st1\<lparr>toasts := toasts st1 @
                       [ToastError ''Speech Recognition not supported in this browser''],
                    isInitializingRef := False\<rparr>
           else if \<not> microphoneGranted env
           then st1\<lparr>toasts := toasts st1 @
                       [ToastError
                         ''Microphone access is required. Please allow microphone permissions and try again.''],
                    isInitializingRef := False\<rparr>
           else
             let r = \<lparr>rec_continuous = advancedConfigOk env,
                      rec_interimResults = advancedConfigOk env,
                      closure_isRecording = isRecording_c\<rparr>;
                 st2 = st1\<lparr>isRecording := True, recognitionRef := Some r\<rparr>;
                 st3 = st2\<lparr>engine := engine st2 @ [EngineStart]\<rparr>
             in if startOk env then st3\<lparr>isInitializingRef := False\<rparr>
                else st3\<lparr>toasts := toasts st3 @
                            [ToastError ''Failed to start voice recognition. Please try again.''],
                         isRecording := False, isInitializingRef := False\<rparr>)"

definition stopRecording :: "vstate \<Rightarrow> vstate" where
  "stopRecording st =
     (let st1 = (case recognitionRef st of
                   None \<Rightarrow> st
                 | Some r \<Rightarrow> st\<lparr>engine := engine st @ [EngineStop], recognitionRef := None\<rparr>)
      in st1\<lparr>isRecording := False, isTranscribing := False, isInitializingRef := False\<rparr>)"

definition onend :: "recognition \<Rightarrow> vstate \<Rightarrow> vstate" where
  \<comment> \<open>\<open>recognition.onend\<close> of the object \<open>r\<close>: either a restart timer of 100 ms is set, or the
      component goes back to idle\<close>
  "onend r st =
     (if closure_isRecording r \<and> \<not> isInitializingRef st
      then st\<lparr>restartTimers := restartTimers st @ [r]\<rparr>
      else st\<lparr>isRecording := False, isTranscribing := False, isInitializingRef := False,
              toasts := toasts st @ [ToastInfo ''Stopped listening'']\<rparr>)"

definition restartTimerFires :: "recognition \<Rightarrow> vstate \<Rightarrow> vstate" where
  \<comment> \<open>the callback given to \<open>setTimeout\<close> by \<open>onend\<close>\<close>
  "restartTimerFires r st =
     (let st1 = st\<lparr>restartTimers := remove1 r (restartTimers st)\<rparr>
      in if recognitionRef st1 \<noteq> None \<and> closure_isRecording r
         then st1\<lparr>engine := engine st1 @ [EngineStart]\<rparr>
         else st1)"

definition onerror :: "string \<Rightarrow> vstate \<Rightarrow> vstate" where
  "onerror code st =
     (let st1 = st\<lparr>isRecording := False, isTranscribing := False, isInitializingRef := False\<rparr>
      in st1\<lparr>toasts := toasts st1 @
           [if code = ''no-speech'' then ToastInfo ''No speech detected. Please try again.''
            else if code = ''network''
            then ToastError ''Network error. Please check your connection.''
            else if code = ''not-allowed''
            then ToastError ''Microphone access denied. Please allow microphone permissions.''
            else if code = ''language-not-supported''
            then ToastError
                   ''Speech recognition language not supported. Try using a different browser.''
            else ToastError (''Speech recognition error: '' @ code)]\<rparr>)"

section \<open>Speech synthesis (speakMessage)\<close>

text \<open>
  What \<open>speakMessage\<close> finds: whether the dynamic import of the speech SDK resolves, the two
  environment variables, whether the SDK calls up to \<open>speakSsmlAsync\<close> return, and whether
  the browser has \<open>window.speechSynthesis\<close>.
\<close>

record tts_env =
  sdkImportOk :: bool
  speechKey :: "string option"
  serviceRegion :: "string option"
  sdkCallsOk :: bool
  hasSpeechSynthesis :: bool

definition envTruthy :: "string option \<Rightarrow> bool" where
  "envTruthy v = (case v of None \<Rightarrow> False | Some s \<Rightarrow> s \<noteq> [])"

text \<open>
  What a call does: it submits SSML to the cloud engine (voice, style, style degree, text),
  or it cancels local synthesis and sets a timer of 100 ms that speaks the text locally, or
  it only logs that no synthesis is available. \<open>text.substring\<close> in the first statement is
  outside the \<open>try\<close>: an argument that is not a string rejects the promise.
\<close>

datatype speak_action =
    CloudSynthesis string string string string
  | LocalFallback string
  | NoSynthesis

datatype speak_result = Completed speak_action | Uncaught string

definition speakMessage :: "tts_env \<Rightarrow> jsval \<Rightarrow> speak_result" where
  "speakMessage env v =
     (case v of
        JStr txt \<Rightarrow>
          if sdkImportOk env \<and> envTruthy (speechKey env) \<and> envTruthy (serviceRegion env)
             \<and> sdkCallsOk env
          then Completed (CloudSynthesis ''en-US-JennyNeural'' ''friendly'' ''1.3'' txt)
          else if hasSpeechSynthesis env then Completed (LocalFallback txt)
          else Completed NoSynthesis
      | _ \<Rightarrow> Uncaught ''TypeError'')"

record voice =
  voice_name :: string
  voice_lang :: string

record utterance =
  utt_text :: string
  utt_rate :: rat
  utt_pitch :: rat
  utt_volume :: rat
  utt_voice :: "voice option"

definition isFemaleVoice :: "voice \<Rightarrow> bool" where
  "isFemaleVoice v =
     (js_includes (voice_name v) ''Samantha'' \<or>
      js_includes (voice_name v) ''Karen'' \<or>
      js_includes (voice_name v) ''Female'' \<or>
      js_includes (voice_name v) ''Susan'' \<or>
      js_includes (toLowerCase (voice_name v)) ''female'')"

definition localUtterance :: "voice list \<Rightarrow> string \<Rightarrow> utterance" where
  \<comment> \<open>the timer callback of the fallback: the utterance given to \<open>speechSynthesis.speak\<close>;
      no voice set is the browser's default voice\<close>
  "localUtterance voices txt =
     \<lparr>utt_text = txt, utt_rate = 9 / 10, utt_pitch = 1, utt_volume = 1,
      utt_voice = List.find isFemaleVoice voices\<rparr>"

section \<open>The specification's wording, for comparison\<close>

text \<open>
  The style categories in the order the specification lists them, each with the style it
  names; the keyword tests are the ones of the code.
\<close>

definition isGreeting :: "string \<Rightarrow> bool" where
  "isGreeting l = (js_includes l ''good morning'' \<or> js_includes l ''hello'' \<or>
     js_includes l ''have a great'' \<or> js_includes l ''wishing you'' \<or>
     js_includes l ''hope you'' \<or> js_includes l ''enjoy'')"

definition isWeather :: "string \<Rightarrow> bool" where
  "isWeather l = (js_includes l ''weather'' \<or> js_includes l ''temperature'' \<or>
     js_includes l ''rain'' \<or> js_includes l ''cloudy'' \<or> js_includes l ''sunny'' \<or>
     js_includes l ''degrees'')"

definition isScheduling :: "string \<Rightarrow> bool" where
  "isScheduling l = (js_includes l ''schedule'' \<or> js_includes l ''appointment'' \<or>
     js_includes l ''meeting'' \<or> js_includes l ''office'' \<or>
     js_includes l ''plan to leave'' \<or>
     (js_includes l ''time'' \<and> (js_includes l ''am'' \<or> js_includes l ''pm'')))"

definition isReminder :: "string \<Rightarrow> bool" where
  "isReminder l = (js_includes l ''remember'' \<or> js_includes l ''don't forget'' \<or>
     js_includes l ''make sure'' \<or> js_includes l ''important'' \<or>
     js_includes l ''please'' \<or> js_includes l ''should'')"

definition isSuggestion :: "string \<Rightarrow> bool" where
  "isSuggestion l = (js_includes l ''suggest'' \<or> js_includes l ''recommend'' \<or>
     js_includes l ''might'' \<or> js_includes l ''consider'' \<or> js_includes l ''try'')"

definition isOfferOfHelp :: "string \<Rightarrow> bool" where
  "isOfferOfHelp l = (js_includes l ''let me know'' \<or> js_includes l ''if you need'' \<or>
     js_includes l ''help'' \<or> js_includes l ''anything else'' \<or>
     js_includes l ''feel free'')"

definition isEnthusiasm :: "string \<Rightarrow> bool" where
  "isEnthusiasm l = (js_includes l ''great'' \<or> js_includes l ''excellent'' \<or>
     js_includes l ''wonderful'' \<or> js_includes l ''perfect'' \<or> js_includes l ''amazing'')"

definition styleCategories :: "((string \<Rightarrow> bool) \<times> string) list" where
  "styleCategories =
     [(isGreeting, ''cheerful''), (isWeather, ''friendly''), (isScheduling, ''assistant''),
      (isReminder, ''empathetic''), (isSuggestion, ''hopeful''),
      (isOfferOfHelp, ''friendly''), (isEnthusiasm, ''excited'')]"

definition firstMatchingStyle :: "string \<Rightarrow> string" where
  \<comment> \<open>"first matching category wins", else the default\<close>
  "firstMatchingStyle l =
     (case List.find (\<lambda>c. fst c l) styleCategories of
        Some c \<Rightarrow> snd c
      | None \<Rightarrow> ''friendly'')"

definition sendPermitted_spec :: "bool \<Rightarrow> bool \<times> int \<Rightarrow> int \<Rightarrow> bool" where
  \<comment> \<open>"the primary state says connected OR the side record says connected within a short
      recency window"\<close>
  "sendPermitted_spec connected_c sideRecord t =
     (connected_c \<or> (fst sideRecord \<and> t - snd sideRecord < 5000))"

definition inboundSuppressed :: "(string \<times> int) option \<Rightarrow> jsval \<Rightarrow> int \<Rightarrow> bool" where
  \<comment> \<open>the three ways in which \<open>handleWebSocketMessage\<close> leaves a group message alone: the
      payload is falsy, the echo check, the check for likely user input\<close>
  "inboundSuppressed guard p t =
     (\<not> truthy p \<or> isOwnEcho guard (messageData p) t \<or> looksLikeUserInput (messageData p))"

definition closures_stale :: "vstate \<Rightarrow> bool" where
  \<comment> \<open>the handlers of the current recognition object read \<open>isRecording\<close> as \<open>false\<close>\<close>
  "closures_stale st =
     (case recognitionRef st of None \<Rightarrow> True | Some r \<Rightarrow> \<not> closure_isRecording r)"

section \<open>Properties of the string functions\<close>

lemma dropWhile_rev_dropWhile:
  "dropWhile P (rev (dropWhile P (rev (dropWhile P s)))) = rev (dropWhile P (rev (dropWhile P s)))"
proof -
  define a where "a = dropWhile P s"
  define b where "b = rev (dropWhile P (rev a))"
  have "rev (takeWhile P (rev a) @ dropWhile P (rev a)) = a" by simp
  then have split: "b @ rev (takeWhile P (rev a)) = a" by (simp only: rev_append b_def)
  have "b = [] \<or> \<not> P (hd b)"
  proof (cases "b = []")
    case True then show ?thesis by simp
  next
    case False
    then have hd: "hd b = hd a" using split hd_append2 [of b "rev (takeWhile P (rev a))"] by simp
    have "a \<noteq> []" using False split by auto
    then have "\<not> P (hd a)" unfolding a_def by (rule hd_dropWhile)
    then show ?thesis using hd by simp
  qed
  then have "dropWhile P b = b" by (simp only: dropWhile_eq_self_iff)
  then show ?thesis by (simp only: a_def b_def)
qed

lemma trim_idem: "trim (trim s) = trim s"
  unfolding trim_def by (simp add: dropWhile_rev_dropWhile)

section \<open>Properties of processTranscript\<close>

lemma begin_unchanged_or_marked:
  "processTranscript_begin c env T st = (s1, aw) \<Longrightarrow>
     (s1 = st \<and> \<not> aw \<and> (trim T = [] \<or> isDuplicate (lastProcessedRef st) T (now env))) \<or>
     (trim T \<noteq> [] \<and> \<not> isDuplicate (lastProcessedRef st) T (now env) \<and>
      lastProcessedRef s1 = Some (trim T, now env) \<and>
      length (messages s1) = length (messages st) + 1 \<and>
      length (sent s1) = length (sent st) + (if aw then 1 else 0))"
  by (auto simp: processTranscript_begin_def Let_def split: if_splits)

lemma resume_marker:
  "lastProcessedRef (processTranscript_resume settled renv T s) =
     (if settled = Resolved then Some (T, echoTime renv) else lastProcessedRef s)"
  by (cases settled) (simp_all add: processTranscript_resume_def Let_def)

lemma resume_sent: "sent (processTranscript_resume settled renv T s) = sent s"
  by (cases settled) (simp_all add: processTranscript_resume_def Let_def)

lemma resume_messages:
  "length (messages (processTranscript_resume settled renv T s)) =
     length (messages s) + (if settled = Resolved then 1 else 0)"
  by (cases settled) (simp_all add: processTranscript_resume_def Let_def)

lemma begin_duplicate:
  "isDuplicate (lastProcessedRef s) T t \<Longrightarrow> now env = t \<Longrightarrow>
     processTranscript_begin c env T s = (s, False)"
  by (simp add: processTranscript_begin_def)

lemma processTranscript_duplicate:
  "isDuplicate (lastProcessedRef s) T (now env) \<Longrightarrow>
     processTranscript c env settled renv T s = s"
  by (simp add: processTranscript_def processTranscript_begin_def)


lemma processTranscript_counts:
  "length (sent (processTranscript c env settled renv T s)) \<le> length (sent s) + 1 \<and>
   length (messages (processTranscript c env settled renv T s)) \<le> length (messages s) + 2"
proof -
  obtain s1 aw where b: "processTranscript_begin c env T s = (s1, aw)"
    by (cases "processTranscript_begin c env T s")
  from begin_unchanged_or_marked [OF b] show ?thesis
    by (auto simp: processTranscript_def b resume_sent resume_messages)
qed


text \<open>
  C1. A final transcript reaches \<open>processTranscript\<close> trimmed (\<open>onresult\<close> passes
  \<open>finalTranscript.trim()\<close>). When such a transcript \<open>T\<close> is submitted, and submitted again
  less than 2000 ms later by the clock reading of the first submission, then, provided
  the first submission was itself dispatched (it was not a duplicate of an earlier one),
  the second one returns at the duplicate check and changes nothing: neither when it
  arrives while the first send is still awaited (state \<open>sA\<close>), nor after the first run
  has finished (state \<open>sOne\<close>). In every case the two submissions together add at most
  one call of \<open>sendToGroup\<close> and at most two entries to the message log. The clock is
  taken not to run backwards between the first reading and the reading after the send.
\<close>

theorem duplicate_transcript_rejected:
  assumes trimmed: "trim T = T"
      and mono: "now envA \<le> echoTime renvA"
      and within: "now envB - now envA < 2000"
      and sA: "sA = fst (processTranscript_begin cA envA T st)"
      and sOne: "sOne = processTranscript cA envA settledA renvA T st"
      and sTwo: "sTwo = processTranscript cB envB settledB renvB T sOne"
  shows "(\<not> isDuplicate (lastProcessedRef st) T (now envA) \<longrightarrow>
            processTranscript_begin cB envB T sA = (sA, False) \<and>
            processTranscript_begin cB envB T sOne = (sOne, False) \<and> sTwo = sOne) \<and>
         length (sent sTwo) \<le> length (sent st) + 1 \<and>
         length (messages sTwo) \<le> length (messages st) + 2"
proof -
  obtain aw where b: "processTranscript_begin cA envA T st = (sA, aw)"
    using sA by (cases "processTranscript_begin cA envA T st") simp
  have sOne_eq: "sOne = (if aw then processTranscript_resume settledA renvA T sA else sA)"
    by (simp add: sOne processTranscript_def b)
  have rejected: "processTranscript_begin cB envB T sA = (sA, False) \<and>
      processTranscript_begin cB envB T sOne = (sOne, False) \<and> sTwo = sOne"
    if fresh: "\<not> isDuplicate (lastProcessedRef st) T (now envA)"
  proof (cases "trim T = []")
    case True
    then have "sA = st" "sOne = st" using b sOne_eq
      by (auto simp: processTranscript_begin_def)
    then show ?thesis using True by (simp add: sTwo processTranscript_def processTranscript_begin_def)
  next
    case False
    from begin_unchanged_or_marked [OF b] fresh False
    have mA: "lastProcessedRef sA = Some (T, now envA)" by (auto simp: trimmed)
    have dupA: "isDuplicate (lastProcessedRef sA) T (now envB)"
      by (simp add: mA isDuplicate_def trimmed within)
    have "lastProcessedRef sOne = Some (T, now envA) \<or> lastProcessedRef sOne = Some (T, echoTime renvA)"
      by (simp add: sOne_eq resume_marker mA)
    then have dupOne: "isDuplicate (lastProcessedRef sOne) T (now envB)"
      using mono within by (auto simp: isDuplicate_def trimmed)
    show ?thesis
      using dupA dupOne by (simp add: sTwo processTranscript_duplicate begin_duplicate)
  qed
  have counts: "length (sent sTwo) \<le> length (sent st) + 1 \<and>
      length (messages sTwo) \<le> length (messages st) + 2"
  proof (cases "isDuplicate (lastProcessedRef st) T (now envA)")
    case True
    then have "sOne = st" by (simp add: sOne processTranscript_duplicate)
    then show ?thesis using processTranscript_counts [of cB envB settledB renvB T st]
      by (simp add: sTwo)
  next
    case False
    then have "sTwo = sOne" using rejected by simp
    then show ?thesis using processTranscript_counts [of cA envA settledA renvA T st]
      by (simp add: sOne)
  qed
  show ?thesis using rejected counts by blast
qed

theorem duplicate_transcript_rejected_witness:
  "processTranscript False \<lparr>now = 11000, stamp = 11000, checkTime = 11000\<rparr> Resolved
      \<lparr>sentStamp = 11050, sentRnd = ''s'', echoTime = 11050\<rparr> ''hi''
     (processTranscript False \<lparr>now = 10000, stamp = 10000, checkTime = 10000\<rparr> Resolved
        \<lparr>sentStamp = 10050, sentRnd = ''r'', echoTime = 10050\<rparr> ''hi''
        (updateConnectionStateRef True 0 vstate_init))
   = processTranscript False \<lparr>now = 10000, stamp = 10000, checkTime = 10000\<rparr> Resolved
        \<lparr>sentStamp = 10050, sentRnd = ''r'', echoTime = 10050\<rparr> ''hi''
        (updateConnectionStateRef True 0 vstate_init)"
proof -
  have h1: "trim ''hi'' = ''hi''" by (simp add: trim_def isWhiteSpace_def)
  have h2: "now \<lparr>now = 10000, stamp = 10000, checkTime = 10000\<rparr>
              \<le> echoTime \<lparr>sentStamp = 10050, sentRnd = ''r'', echoTime = 10050\<rparr>" by simp
  have h3: "now \<lparr>now = 11000, stamp = 11000, checkTime = 11000\<rparr>
              - now \<lparr>now = 10000, stamp = 10000, checkTime = 10000\<rparr> < 2000" by simp
  have fresh: "\<not> isDuplicate (lastProcessedRef (updateConnectionStateRef True 0 vstate_init))
                 ''hi'' (now \<lparr>now = 10000, stamp = 10000, checkTime = 10000\<rparr>)"
    by (simp add: isDuplicate_def updateConnectionStateRef_def vstate_init_def)
  from duplicate_transcript_rejected [OF h1 h2 h3 refl refl refl, where cA = False and settledA = Resolved
       and st = "updateConnectionStateRef True 0 vstate_init" and cB = False
       and settledB = Resolved
       and renvB = "\<lparr>sentStamp = 11050, sentRnd = ''s'', echoTime = 11050\<rparr>"] fresh
  show ?thesis by blast
qed


text \<open>
  C10. When \<open>processTranscript\<close> gets as far as calling \<open>sendToGroup\<close> (state \<open>sA\<close>, at the
  \<open>await\<close>), the last-dispatched marker already holds the trimmed transcript with the clock
  reading of the entry, and the local-user entry is already in the message log. When the
  send then fails (state \<open>sB\<close>), the marker and the log are as they were at the \<open>await\<close>:
  nothing is rolled back. A transcript with the same trimmed text that is submitted less
  than 2000 ms after the first clock reading returns at the duplicate check and changes
  nothing.
\<close>

theorem failed_send_not_rolled_back:
  assumes attempted: "processTranscript_begin c env T st = (sA, True)"
      and failed: "settled \<noteq> Resolved"
      and sB: "sB = processTranscript_resume settled renv T sA"
      and same: "trim T' = trim T"
      and within: "now envB - now env < 2000"
  shows "lastProcessedRef sA = Some (trim T, now env) \<and>
         messages sA = messages st @
           [\<lparr>msg_id = IdNow (stamp env), msg_text = JStr T, sender = User,
             timestamp = stamp env, isAudio = False, processing = False\<rparr>] \<and>
         sent sA = sent st @ [(''cortana-users'', T, ''text'')] \<and>
         sB = processTranscript c env settled renv T st \<and>
         lastProcessedRef sB = lastProcessedRef sA \<and>
         messages sB = messages sA \<and>
         processTranscript cB envB settledB renvB T' sB = sB"
proof -
  from attempted have
    mA: "lastProcessedRef sA = Some (trim T, now env)" and
    msgA: "messages sA = messages st @
           [\<lparr>msg_id = IdNow (stamp env), msg_text = JStr T, sender = User,
             timestamp = stamp env, isAudio = False, processing = False\<rparr>]" and
    sentA: "sent sA = sent st @ [(''cortana-users'', T, ''text'')]"
    by (auto simp: processTranscript_begin_def Let_def split: if_splits)
  have run: "sB = processTranscript c env settled renv T st"
    by (simp add: sB processTranscript_def attempted)
  have mB: "lastProcessedRef sB = lastProcessedRef sA"
    using failed by (simp add: sB resume_marker)
  have msgB: "messages sB = messages sA"
    using failed by (cases settled) (simp_all add: sB processTranscript_resume_def)
  have "isDuplicate (lastProcessedRef sB) T' (now envB)"
    by (simp add: mB mA isDuplicate_def same within)
  then have "processTranscript cB envB settledB renvB T' sB = sB"
    by (rule processTranscript_duplicate)
  with mA msgA sentA run mB msgB show ?thesis by simp
qed

theorem failed_send_not_rolled_back_witness:
  "processTranscript True \<lparr>now = 11000, stamp = 11000, checkTime = 11000\<rparr> Resolved
      \<lparr>sentStamp = 11050, sentRnd = ''s'', echoTime = 11050\<rparr> ''hi''
     (processTranscript True \<lparr>now = 10000, stamp = 10000, checkTime = 10000\<rparr>
        (RejectedError ''network down'')
        \<lparr>sentStamp = 10050, sentRnd = ''r'', echoTime = 10050\<rparr> ''hi'' vstate_init)
   = processTranscript True \<lparr>now = 10000, stamp = 10000, checkTime = 10000\<rparr>
        (RejectedError ''network down'')
        \<lparr>sentStamp = 10050, sentRnd = ''r'', echoTime = 10050\<rparr> ''hi'' vstate_init \<and>
   map msg_text (messages (processTranscript True \<lparr>now = 10000, stamp = 10000, checkTime = 10000\<rparr>
        (RejectedError ''network down'')
        \<lparr>sentStamp = 10050, sentRnd = ''r'', echoTime = 10050\<rparr> ''hi'' vstate_init))
     = [JStr ''hi'']"
proof -
  let ?env = "\<lparr>now = 10000, stamp = 10000, checkTime = 10000\<rparr>"
  let ?renv = "\<lparr>sentStamp = 10050, sentRnd = ''r'', echoTime = 10050\<rparr>"
  let ?sA = "vstate_init\<lparr>lastProcessedRef := Some (''hi'', 10000), isTranscribing := True,
         messages := [\<lparr>msg_id = IdNow 10000, msg_text = JStr ''hi'', sender = User,
             timestamp = 10000, isAudio = False, processing = False\<rparr>],
         sent := [(''cortana-users'', ''hi'', ''text'')]\<rparr>"
  let ?sB = "processTranscript_resume (RejectedError ''network down'') ?renv ''hi'' ?sA"
  have tr: "trim ''hi'' = ''hi''" by (simp add: trim_def isWhiteSpace_def)
  have attempted: "processTranscript_begin True ?env ''hi'' vstate_init = (?sA, True)"
    by (simp add: processTranscript_begin_def tr isDuplicate_def vstate_init_def)
  have failed: "RejectedError ''network down'' \<noteq> Resolved" by simp
  have within: "now \<lparr>now = 11000, stamp = 11000, checkTime = 11000\<rparr> - now ?env < 2000"
    by simp
  note w = failed_send_not_rolled_back [OF attempted failed refl refl within, where cB = True
      and settledB = Resolved and renv = ?renv
      and renvB = "\<lparr>sentStamp = 11050, sentRnd = ''s'', echoTime = 11050\<rparr>"]
  from w have run: "?sB = processTranscript True ?env (RejectedError ''network down'') ?renv
      ''hi'' vstate_init" by blast
  from w have rej: "processTranscript True \<lparr>now = 11000, stamp = 11000, checkTime = 11000\<rparr>
      Resolved \<lparr>sentStamp = 11050, sentRnd = ''s'', echoTime = 11050\<rparr> ''hi'' ?sB = ?sB"
    by blast
  from w have "messages ?sB = messages ?sA" by blast
  then have msgs: "map msg_text (messages ?sB) = [JStr ''hi'']" by simp
  from rej msgs show ?thesis unfolding run by blast
qed

text \<open>
  C4, as stated, fails. With \<open>isConnected\<close> false in the closure and the side record saying
  connected since 10 seconds, the send is made; it is also made when the side record says
  not connected and was written 2 seconds ago. In both cases the condition of the claim
  (primary state connected, or side record connected within 5 seconds) is false.
\<close>

theorem send_permission_counterexample:
  "sent (processTranscript False \<lparr>now = 10000, stamp = 10000, checkTime = 10000\<rparr> Resolved
      \<lparr>sentStamp = 10050, sentRnd = ''r'', echoTime = 10050\<rparr> ''hi''
      (updateConnectionStateRef True 0 vstate_init)) = [(''cortana-users'', ''hi'', ''text'')] \<and>
   \<not> sendPermitted_spec False (connectionStateRef (updateConnectionStateRef True 0 vstate_init)) 10000 \<and>
   sent (processTranscript False \<lparr>now = 10000, stamp = 10000, checkTime = 10000\<rparr> Resolved
      \<lparr>sentStamp = 10050, sentRnd = ''r'', echoTime = 10050\<rparr> ''hi''
      (updateConnectionStateRef False 8000 vstate_init)) = [(''cortana-users'', ''hi'', ''text'')] \<and>
   \<not> sendPermitted_spec False (connectionStateRef (updateConnectionStateRef False 8000 vstate_init)) 10000"
  by (simp add: processTranscript_def processTranscript_begin_def processTranscript_resume_def
      trim_def isWhiteSpace_def isDuplicate_def vstate_init_def updateConnectionStateRef_def
      sendPermitted_spec_def Let_def toLowerCase_def lowerChar_def)

text \<open>
  C4, amended. For a transcript that passes the empty check and the duplicate check,
  \<open>sendToGroup\<close> is called exactly when \<open>isConnected\<close> of the closure is true, or the side
  record says connected (however old it is), or the side record was written less than
  5000 ms ago (whatever it says). Otherwise no send is made, the toast "Not connected to
  WebPubSub. ..." is shown, and the run ends there.
\<close>

theorem send_attempted_iff:
  assumes nonempty: "trim T \<noteq> []"
      and fresh: "\<not> isDuplicate (lastProcessedRef st) T (now env)"
      and res: "processTranscript_begin c env T st = (sA, attempted)"
  shows "(attempted \<longleftrightarrow>
            c \<or> fst (connectionStateRef st) \<or>
            checkTime env - snd (connectionStateRef st) < 5000) \<and>
         sent sA = (if attempted then sent st @ [(''cortana-users'', T, ''text'')] else sent st) \<and>
         toasts sA = (if attempted then toasts st else toasts st @
            [ToastError ''Not connected to WebPubSub. Please wait for connection and try again.'']) \<and>
         (if attempted then True else processTranscript c env settled renv T st = sA)"
  using assms
  by (auto simp: processTranscript_def processTranscript_begin_def Let_def split: if_splits)

theorem send_attempted_iff_witness:
  "processTranscript_begin False \<lparr>now = 10000, stamp = 10000, checkTime = 10000\<rparr> ''hi''
     vstate_init
   = (vstate_init\<lparr>lastProcessedRef := Some (''hi'', 10000),
        messages := [\<lparr>msg_id = IdNow 10000, msg_text = JStr ''hi'', sender = User,
             timestamp = 10000, isAudio = False, processing = False\<rparr>],
        toasts := [ToastError
          ''Not connected to WebPubSub. Please wait for connection and try again.'']\<rparr>, False) \<and>
   sent (fst (processTranscript_begin False \<lparr>now = 10000, stamp = 10000, checkTime = 10000\<rparr>
     ''hi'' vstate_init)) = []"
proof -
  have tr: "trim ''hi'' = ''hi''" by (simp add: trim_def isWhiteSpace_def)
  have nonempty: "trim ''hi'' \<noteq> []" by (simp add: tr)
  have fresh: "\<not> isDuplicate (lastProcessedRef vstate_init) ''hi''
      (now \<lparr>now = 10000, stamp = 10000, checkTime = 10000\<rparr>)"
    by (simp add: isDuplicate_def vstate_init_def)
  have res: "processTranscript_begin False \<lparr>now = 10000, stamp = 10000, checkTime = 10000\<rparr> ''hi''
     vstate_init
   = (vstate_init\<lparr>lastProcessedRef := Some (''hi'', 10000),
        messages := [\<lparr>msg_id = IdNow 10000, msg_text = JStr ''hi'', sender = User,
             timestamp = 10000, isAudio = False, processing = False\<rparr>],
        toasts := [ToastError
          ''Not connected to WebPubSub. Please wait for connection and try again.'']\<rparr>, False)"
    by (simp add: processTranscript_begin_def tr isDuplicate_def vstate_init_def)
  from send_attempted_iff [OF nonempty fresh res] res show ?thesis by (simp add: vstate_init_def)
qed

section \<open>Properties of handleWebSocketMessage\<close>

lemma messageData_string: "messageData (JStr p) = JStr p"
  by (simp add: messageData_def js_or_def)

lemma handle_suppressed:
  "\<not> truthy (payload m) \<or> isOwnEcho (lastProcessedRef st) (messageData (payload m)) (in_now env)
     \<or> looksLikeUserInput (messageData (payload m)) \<Longrightarrow>
   handleWebSocketMessage aw env m st = st"
  by (auto simp: handleWebSocketMessage_def Let_def)

lemma handle_appended:
  assumes "dm_type m = GroupMessage" "truthy (payload m)"
    "\<not> isOwnEcho (lastProcessedRef st) (messageData (payload m)) (in_now env)"
    "\<not> looksLikeUserInput (messageData (payload m))"
  shows "messages (handleWebSocketMessage aw env m st) = messages st @
      [\<lparr>msg_id = (if dm_id m \<noteq> [] then IdGiven (dm_id m)
                  else IdReceived (in_stamp env) (in_rnd env)),
        msg_text = extractText env (messageData (payload m)), sender = Cortana,
        timestamp = (if dm_timestamp m \<noteq> 0 then dm_timestamp m else in_stamp env),
        isAudio = False, processing = False\<rparr>]"
  using assms by (simp add: handleWebSocketMessage_def Let_def split: jsval.splits)

lemma handle_spoken:
  assumes "dm_type m = GroupMessage" "truthy (payload m)"
    "\<not> isOwnEcho (lastProcessedRef st) (messageData (payload m)) (in_now env)"
    "\<not> looksLikeUserInput (messageData (payload m))"
    "extractText env (messageData (payload m)) = JStr t"
  shows "spoken (handleWebSocketMessage aw env m st) = spoken st @ [t]"
  using assms by (simp add: handleWebSocketMessage_def Let_def)

text \<open>
  C2, as stated, fails. The group message with the payload \<open>hello\<close> is dropped (the state
  does not change) although nothing was sent before, so that it is no echo.
\<close>

theorem inbound_suppression_counterexample:
  "handleWebSocketMessage False
     \<lparr>in_now = 50000, in_stamp = 50000, in_rnd = ''k3'', parseResult = None,
      stringifyResult = [], stringResult = []\<rparr>
     \<lparr>dm_id = ''m1'', dm_type = GroupMessage, payload = JStr ''hello'', dm_timestamp = 49990\<rparr>
     vstate_init = vstate_init \<and>
   \<not> isOwnEcho (lastProcessedRef vstate_init) (messageData (JStr ''hello'')) 50000"
  by (simp add: handleWebSocketMessage_def messageData_def js_or_def isOwnEcho_def
      looksLikeUserInput_def toLowerCase_def lowerChar_def vstate_init_def)

text \<open>
  C2, amended. A group message is left out of the message log and is not spoken exactly
  when its payload is falsy, or its content is a string equal to the text of
  \<open>lastProcessedRef\<close> and arrives less than 10000 ms after the recorded time, or its content
  is a string shorter than 100 characters whose lower-case form contains \<open>good morning\<close>,
  \<open>hello\<close> or \<open>hi there\<close>; then the handler changes nothing at all. Every other group
  message is appended to the message log with the extracted text, and that text is handed
  to \<open>speakMessage\<close> when it is a string.
\<close>

theorem inbound_suppressed_iff:
  assumes grp: "dm_type m = GroupMessage"
  shows "((messages (handleWebSocketMessage aw env m st) = messages st \<and>
           spoken (handleWebSocketMessage aw env m st) = spoken st) \<longleftrightarrow>
          inboundSuppressed (lastProcessedRef st) (payload m) (in_now env)) \<and>
         (if inboundSuppressed (lastProcessedRef st) (payload m) (in_now env)
          then handleWebSocketMessage aw env m st = st
          else messages (handleWebSocketMessage aw env m st) = messages st @
                 [\<lparr>msg_id = (if dm_id m \<noteq> [] then IdGiven (dm_id m)
                             else IdReceived (in_stamp env) (in_rnd env)),
                   msg_text = extractText env (messageData (payload m)), sender = Cortana,
                   timestamp = (if dm_timestamp m \<noteq> 0 then dm_timestamp m else in_stamp env),
                   isAudio = False, processing = False\<rparr>] \<and>
               (case extractText env (messageData (payload m)) of
                  JStr t \<Rightarrow> spoken (handleWebSocketMessage aw env m st) = spoken st @ [t]
                | _ \<Rightarrow> True))"
proof (cases "inboundSuppressed (lastProcessedRef st) (payload m) (in_now env)")
  case True
  then have "handleWebSocketMessage aw env m st = st"
    unfolding inboundSuppressed_def by (rule handle_suppressed)
  then show ?thesis using True by simp
next
  case False
  then have c: "truthy (payload m)"
      "\<not> isOwnEcho (lastProcessedRef st) (messageData (payload m)) (in_now env)"
      "\<not> looksLikeUserInput (messageData (payload m))"
    by (simp_all add: inboundSuppressed_def)
  note app = handle_appended [OF grp c, where aw = aw]
  have sp: "case extractText env (messageData (payload m)) of
      JStr t \<Rightarrow> spoken (handleWebSocketMessage aw env m st) = spoken st @ [t] | _ \<Rightarrow> True"
    using handle_spoken [OF grp c, where aw = aw] by (simp split: jsval.splits)
  from app have "messages (handleWebSocketMessage aw env m st) \<noteq> messages st" by simp
  with app sp False show ?thesis by simp
qed

theorem inbound_suppressed_iff_witness:
  "messages (handleWebSocketMessage False
       \<lparr>in_now = 50000, in_stamp = 50000, in_rnd = ''k3'', parseResult = None,
        stringifyResult = [], stringResult = []\<rparr>
       \<lparr>dm_id = ''m1'', dm_type = GroupMessage, payload = JStr ''your day is clear'',
        dm_timestamp = 49990\<rparr>
       vstate_init)
     = [\<lparr>msg_id = IdGiven ''m1'', msg_text = JStr ''your day is clear'', sender = Cortana,
         timestamp = 49990, isAudio = False, processing = False\<rparr>] \<and>
   spoken (handleWebSocketMessage False
       \<lparr>in_now = 50000, in_stamp = 50000, in_rnd = ''k3'', parseResult = None,
        stringifyResult = [], stringResult = []\<rparr>
       \<lparr>dm_id = ''m1'', dm_type = GroupMessage, payload = JStr ''your day is clear'',
        dm_timestamp = 49990\<rparr>
       vstate_init)
     = [''your day is clear'']"
proof -
  let ?env = "\<lparr>in_now = 50000, in_stamp = 50000, in_rnd = ''k3'', parseResult = None,
        stringifyResult = [], stringResult = []\<rparr>"
  let ?m = "\<lparr>dm_id = ''m1'', dm_type = GroupMessage, payload = JStr ''your day is clear'',
        dm_timestamp = 49990\<rparr>"
  have grp: "dm_type ?m = GroupMessage" by simp
  have low: "toLowerCase ''your day is clear'' = ''your day is clear''"
    by (simp add: toLowerCase_def lowerChar_def)
  have passes: "\<not> inboundSuppressed (lastProcessedRef vstate_init) (payload ?m) (in_now ?env)"
    by (simp add: inboundSuppressed_def messageData_string isOwnEcho_def looksLikeUserInput_def
        low vstate_init_def)
  have ext: "extractText ?env (messageData (payload ?m)) = JStr ''your day is clear''"
    by (simp add: messageData_string extractText_def)
  from inbound_suppressed_iff [OF grp, where aw = False and env = ?env and st = vstate_init]
    passes ext
  show ?thesis by (simp add: vstate_init_def)
qed

text \<open>
  C9. A group message whose payload is a string shorter than 100 characters, with a
  lower-case form that contains \<open>good morning\<close>, \<open>hello\<close> or \<open>hi there\<close>, is dropped by the
  handler: the state, with the message log and the list of spoken texts, does not change.
  This holds whatever \<open>lastProcessedRef\<close> and the clock are, so also when the message is
  no echo.
\<close>

theorem greeting_like_inbound_discarded:
  assumes grp: "dm_type m = GroupMessage"
      and str: "payload m = JStr p"
      and short: "length p < 100"
      and greeting: "js_includes (toLowerCase p) ''good morning'' \<or>
                     js_includes (toLowerCase p) ''hello'' \<or>
                     js_includes (toLowerCase p) ''hi there''"
  shows "handleWebSocketMessage aw env m st = st"
proof -
  have "looksLikeUserInput (messageData (payload m))"
    using short greeting by (simp add: str messageData_string looksLikeUserInput_def)
  then show ?thesis by (simp add: handleWebSocketMessage_def Let_def)
qed

theorem greeting_like_inbound_discarded_witness:
  "handleWebSocketMessage False
     \<lparr>in_now = 50000, in_stamp = 50000, in_rnd = ''k3'', parseResult = None,
      stringifyResult = [], stringResult = []\<rparr>
     \<lparr>dm_id = ''m1'', dm_type = GroupMessage, payload = JStr ''hello from the team'',
      dm_timestamp = 49990\<rparr>
     vstate_init = vstate_init"
proof -
  have short: "length ''hello from the team'' < 100" by simp
  have low: "toLowerCase ''hello from the team'' = ''hello from the team''"
    by (simp add: toLowerCase_def lowerChar_def)
  have greeting: "js_includes (toLowerCase ''hello from the team'') ''good morning'' \<or>
      js_includes (toLowerCase ''hello from the team'') ''hello'' \<or>
      js_includes (toLowerCase ''hello from the team'') ''hi there''"
    unfolding low by simp
  show ?thesis
    by (rule greeting_like_inbound_discarded [OF _ _ short greeting]) simp_all
qed

section \<open>Properties of the connection hook\<close>

lemma connect_guard_on_closure:
  assumes "isConnecting_c \<or> isConnected_c"
  shows "connectInternal isConnecting_c isConnected_c config outcome st = st"
  using assms by (simp add: connectInternal_def)

lemma connect_past_guard_starts_client:
  assumes "\<not> isConnecting_c" "\<not> isConnected_c" "clientUrl config = Some u" "u \<noteq> []"
  shows "net (connectInternal isConnecting_c isConnected_c config Started st) =
           net st @ [NetStart u] \<and>
         clientRef (connectInternal isConnecting_c isConnected_c config Started st) = Some u \<and>
         isConnecting (connectInternal isConnecting_c isConnected_c config Started st)"
  using assms by (simp add: connectInternal_def Let_def)

text \<open>
  C7. The code at the input of the claim: from the initial state, \<open>connect()\<close> is called
  through the callback of the first render, whose closure has \<open>isConnecting\<close> and
  \<open>isConnected\<close> false; it creates a client, calls \<open>start()\<close> and leaves the state
  connecting. A second \<open>connect()\<close> through the same callback tests the same two
  constants, which \<open>setIsConnecting(true)\<close> has not changed: it passes the guard, creates
  a second client over the client ref and calls \<open>start()\<close> again. The guard returns at
  once only for a callback built by a render that saw the state connecting or connected
  (\<open>connect_guard_on_closure\<close>).
\<close>

theorem connect_twice_through_one_callback:
  "connectInternal False False
       \<lparr>endpoint = ''https://cortanawps.webpubsub.azure.com'', hubName = ''cortana'',
        clientUrl = Some ''wss://cortanawps'', groups = [''cortana-users'']\<rparr>
       Started hook_init
     = hook_init\<lparr>isConnecting := True, client := Some ''wss://cortanawps'',
         clientRef := Some ''wss://cortanawps'', net := [NetStart ''wss://cortanawps'']\<rparr> \<and>
   connectInternal False False
       \<lparr>endpoint = ''https://cortanawps.webpubsub.azure.com'', hubName = ''cortana'',
        clientUrl = Some ''wss://cortanawps'', groups = [''cortana-users'']\<rparr>
       Started
       (hook_init\<lparr>isConnecting := True, client := Some ''wss://cortanawps'',
          clientRef := Some ''wss://cortanawps'', net := [NetStart ''wss://cortanawps'']\<rparr>)
     = hook_init\<lparr>isConnecting := True, client := Some ''wss://cortanawps'',
         clientRef := Some ''wss://cortanawps'',
         net := [NetStart ''wss://cortanawps'', NetStart ''wss://cortanawps'']\<rparr>"
  by (simp add: connectInternal_def hook_init_def)

lemma simulated_mode_keeps_client:
  assumes "\<not> isConnecting_c" "\<not> isConnected_c" "clientUrl config = Some u" "u \<noteq> []"
    and "js_includes e ''Authentication failed'' \<or> js_includes e ''no valid credentials'' \<or>
         js_includes e ''Insufficient resources'' \<or> js_includes e ''insufficient resources''"
  shows "isConnected (connectInternal isConnecting_c isConnected_c config (StartFailed e) st) \<and>
         clientRef (connectInternal isConnecting_c isConnected_c config (StartFailed e) st)
           = Some u"
  using assms by (auto simp: connectInternal_def connectCatch_def Let_def)

lemma send_with_client_reaches_network:
  assumes "clientRef st = Some u" "has_sendToGroup methods"
  shows "net (snd (sendToGroup methods outcome g m d st)) = net st @ [NetSendToGroup g m d] \<and>
         mockSends (snd (sendToGroup methods outcome g m d st)) = mockSends st"
  using assms by (simp add: sendToGroup_def)

lemma mock_path_iff_no_client:
  "(mockSends (snd (sendToGroup methods outcome g m d st)) \<noteq> mockSends st) = (clientRef st = None)"
  by (auto simp: sendToGroup_def split: option.splits)

text \<open>
  C3. The code at the input of the claim: the first connection attempt (through the
  callback of the first render, whose closure has both flags false), with a client URL
  configured, fails with "Authentication failed". The hook then reports connected, but
  the client ref still holds the client object created before \<open>start()\<close>, so the next
  \<open>sendToGroup\<close> does not take the mock path: it calls \<open>sendToGroup\<close> on the client, and
  returns what that call returns (success, or the error it throws). Nothing is recorded as
  a mock send.
\<close>

theorem simulated_mode_send_reaches_client:
  "isConnected (connectInternal False False
       \<lparr>endpoint = ''https://cortanawps.webpubsub.azure.com'', hubName = ''cortana'',
        clientUrl = Some ''wss://cortanawps'', groups = [''cortana-users'']\<rparr>
       (StartFailed ''Authentication failed'') hook_init) \<and>
   clientRef (connectInternal False False
       \<lparr>endpoint = ''https://cortanawps.webpubsub.azure.com'', hubName = ''cortana'',
        clientUrl = Some ''wss://cortanawps'', groups = [''cortana-users'']\<rparr>
       (StartFailed ''Authentication failed'') hook_init) = Some ''wss://cortanawps'' \<and>
   sendToGroup \<lparr>has_sendToGroup = True, has_sendEvent = True\<rparr> SendOk
       ''cortana-users'' (JStr ''hi'') ''text''
       (connectInternal False False
          \<lparr>endpoint = ''https://cortanawps.webpubsub.azure.com'', hubName = ''cortana'',
           clientUrl = Some ''wss://cortanawps'', groups = [''cortana-users'']\<rparr>
          (StartFailed ''Authentication failed'') hook_init)
     = (Inr (),
        hook_init\<lparr>client := Some ''wss://cortanawps'', isConnected := True,
          connectionError :=
            Some ''WebPubSub requires authentication. Running in development mode.'',
          clientRef := Some ''wss://cortanawps'',
          net := [NetStart ''wss://cortanawps'',
                  NetSendToGroup ''cortana-users'' (JStr ''hi'') ''text''],
          mockSends := []\<rparr>) \<and>
   sendToGroup \<lparr>has_sendToGroup = True, has_sendEvent = True\<rparr> (SendFailed ''not connected'')
       ''cortana-users'' (JStr ''hi'') ''text''
       (connectInternal False False
          \<lparr>endpoint = ''https://cortanawps.webpubsub.azure.com'', hubName = ''cortana'',
           clientUrl = Some ''wss://cortanawps'', groups = [''cortana-users'']\<rparr>
          (StartFailed ''Authentication failed'') hook_init)
     = (Inl ''not connected'',
        hook_init\<lparr>client := Some ''wss://cortanawps'', isConnected := True,
          connectionError :=
            Some ''WebPubSub requires authentication. Running in development mode.'',
          clientRef := Some ''wss://cortanawps'',
          net := [NetStart ''wss://cortanawps'',
                  NetSendToGroup ''cortana-users'' (JStr ''hi'') ''text''],
          mockSends := []\<rparr>)"
  by (simp add: connectInternal_def connectCatch_def hook_init_def sendToGroup_def send_result_def)

section \<open>Properties of the capture lifecycle\<close>

lemma startRecording_closure:
  "closures_stale st \<Longrightarrow> closures_stale (startRecording c env st)"
  by (auto simp: closures_stale_def startRecording_def Let_def split: option.splits)

lemma onend_stale_closure:
  "\<not> closure_isRecording r \<Longrightarrow>
     restartTimers (onend r st) = restartTimers st \<and> engine (onend r st) = engine st \<and>
     \<not> isRecording (onend r st)"
  by (simp add: onend_def)

lemma closures_stale_init: "closures_stale vstate_init"
  by (simp add: closures_stale_def vstate_init_def)

lemma end_of_installed_engine_sets_no_timer:
  assumes "closures_stale st" and "recognitionRef (startRecording c env st) = Some r"
  shows "restartTimers (onend r (startRecording c env st)) =
           restartTimers (startRecording c env st) \<and>
         engine (onend r (startRecording c env st)) = engine (startRecording c env st) \<and>
         \<not> isRecording (onend r (startRecording c env st))"
proof -
  from assms(1) have "closures_stale (startRecording c env st)"
    by (rule startRecording_closure)
  with assms(2) have "\<not> closure_isRecording r"
    by (simp add: closures_stale_def)
  then show ?thesis by (rule onend_stale_closure)
qed

lemma timer_after_stop:
  "restartTimerFires r (stopRecording st) =
     (stopRecording st)\<lparr>restartTimers := remove1 r (restartTimers st)\<rparr>"
  by (simp add: restartTimerFires_def stopRecording_def Let_def split: option.splits)

text \<open>
  C8. The code at the input of the claim: from the idle state, \<open>startRecording\<close> with
  recognition supported, the microphone granted and the engine started puts the component
  into the listening state; when the engine then reports its end, \<open>onend\<close> sets no restart
  timer and makes no call on the engine: the component goes to idle and shows "Stopped
  listening". The handlers read \<open>isRecording\<close> through the closure of the render in which
  \<open>startRecording\<close> passed its guard, where it is false.
\<close>

theorem engine_end_after_start_goes_idle:
  "startRecording False
      \<lparr>speechRecognitionSupported = True, microphoneGranted = True, advancedConfigOk = True,
       startOk = True\<rparr> vstate_init
    = vstate_init\<lparr>isRecording := True,
        recognitionRef := Some \<lparr>rec_continuous = True, rec_interimResults = True,
                                closure_isRecording = False\<rparr>,
        engine := [EngineStart]\<rparr> \<and>
   onend \<lparr>rec_continuous = True, rec_interimResults = True, closure_isRecording = False\<rparr>
     (vstate_init\<lparr>isRecording := True,
        recognitionRef := Some \<lparr>rec_continuous = True, rec_interimResults = True,
                                closure_isRecording = False\<rparr>,
        engine := [EngineStart]\<rparr>)
    = vstate_init\<lparr>isRecording := False,
        recognitionRef := Some \<lparr>rec_continuous = True, rec_interimResults = True,
                                closure_isRecording = False\<rparr>,
        engine := [EngineStart], toasts := [ToastInfo ''Stopped listening''],
        restartTimers := []\<rparr>"
  by (simp add: startRecording_def onend_def vstate_init_def)

section \<open>Properties of speakMessage\<close>

text \<open>
  C6, as stated, fails. Without credentials and in a browser without
  \<open>window.speechSynthesis\<close>, \<open>speakMessage("hello")\<close> only logs that no synthesis is
  available: the local fallback is not invoked.
\<close>

theorem speak_without_credentials_counterexample:
  "speakMessage \<lparr>sdkImportOk = True, speechKey = None, serviceRegion = None, sdkCallsOk = True,
       hasSpeechSynthesis = False\<rparr> (JStr ''hello'') = Completed NoSynthesis \<and>
   speakMessage \<lparr>sdkImportOk = True, speechKey = None, serviceRegion = None, sdkCallsOk = True,
       hasSpeechSynthesis = False\<rparr> (JStr ''hello'') \<noteq> Completed (LocalFallback ''hello'')"
  by (simp add: speakMessage_def envTruthy_def)

text \<open>
  C6, amended. For every string, when the speech key or the region is absent,
  \<open>speakMessage\<close> completes without an uncaught error; when the browser has
  \<open>window.speechSynthesis\<close> it invokes the local fallback with that text, and otherwise
  it only logs. The utterance of the fallback carries the text, and as its voice the first
  available voice whose name matches the feminine markers when there is one; when there
  is none, no voice is set, which is the default voice.
\<close>

theorem speak_without_credentials:
  assumes "\<not> (envTruthy (speechKey env) \<and> envTruthy (serviceRegion env))"
  shows "speakMessage env (JStr utt) =
           Completed (if hasSpeechSynthesis env then LocalFallback utt else NoSynthesis) \<and>
         utt_text (localUtterance voices utt) = utt \<and>
         (case List.find isFemaleVoice voices of
            Some v \<Rightarrow> utt_voice (localUtterance voices utt) = Some v \<and> isFemaleVoice v \<and>
                       v \<in> set voices
          | None \<Rightarrow> utt_voice (localUtterance voices utt) = None \<and>
                    (\<forall>v \<in> set voices. \<not> isFemaleVoice v))"
  using assms
  by (auto simp: speakMessage_def localUtterance_def find_Some_iff find_None_iff split: option.splits)

theorem speak_without_credentials_witness:
  "speakMessage \<lparr>sdkImportOk = True, speechKey = None, serviceRegion = None, sdkCallsOk = True,
       hasSpeechSynthesis = True\<rparr> (JStr ''hello'') = Completed (LocalFallback ''hello'') \<and>
   utt_voice (localUtterance
       [\<lparr>voice_name = ''Alex'', voice_lang = ''en-US''\<rparr>,
        \<lparr>voice_name = ''Samantha'', voice_lang = ''en-US''\<rparr>] ''hello'')
     = Some \<lparr>voice_name = ''Samantha'', voice_lang = ''en-US''\<rparr>"
proof -
  have absent: "\<not> (envTruthy (speechKey \<lparr>sdkImportOk = True, speechKey = None, serviceRegion = None,
       sdkCallsOk = True, hasSpeechSynthesis = True\<rparr>) \<and>
     envTruthy (serviceRegion \<lparr>sdkImportOk = True, speechKey = None, serviceRegion = None,
       sdkCallsOk = True, hasSpeechSynthesis = True\<rparr>))"
    by (simp add: envTruthy_def)
  have alex: "\<not> isFemaleVoice \<lparr>voice_name = ''Alex'', voice_lang = ''en-US''\<rparr>"
    by (simp add: isFemaleVoice_def toLowerCase_def lowerChar_def char_of_eq_iff)
  have sam: "isFemaleVoice \<lparr>voice_name = ''Samantha'', voice_lang = ''en-US''\<rparr>"
    by (simp add: isFemaleVoice_def)
  from speak_without_credentials [OF absent, where utt = "''hello''" and voices = "[\<lparr>voice_name = ''Alex'', voice_lang = ''en-US''\<rparr>,
        \<lparr>voice_name = ''Samantha'', voice_lang = ''en-US''\<rparr>]"] alex sam
  show ?thesis by simp
qed

section \<open>Properties of the style classifier\<close>

lemma styleSentence_chain:
  "styleSentence sentence =
     (let trimmedSentence = trim sentence in
      if trimmedSentence = [] then None
      else
        let finalSentence = trimmedSentence @ (if endsWithPunct trimmedSentence then [] else ''.'');
            lowerSentence = toLowerCase trimmedSentence
        in
        if isGreeting lowerSentence
        then Some \<lparr>part_text = finalSentence, style = ''cheerful'', degree = ''1.4''\<rparr>
        else if isWeather lowerSentence
        then Some \<lparr>part_text = finalSentence, style = ''friendly'', degree = ''1.2''\<rparr>
        else if isScheduling lowerSentence
        then Some \<lparr>part_text = finalSentence, style = ''assistant'', degree = ''1.1''\<rparr>
        else if isReminder lowerSentence
        then Some \<lparr>part_text = finalSentence, style = ''empathetic'', degree = ''1.3''\<rparr>
        else if isSuggestion lowerSentence
        then Some \<lparr>part_text = finalSentence, style = ''hopeful'', degree = ''1.2''\<rparr>
        else if isOfferOfHelp lowerSentence
        then Some \<lparr>part_text = finalSentence, style = ''friendly'', degree = ''1.4''\<rparr>
        else if isEnthusiasm lowerSentence
        then Some \<lparr>part_text = finalSentence, style = ''excited'', degree = ''1.3''\<rparr>
        else Some \<lparr>part_text = finalSentence, style = ''friendly'', degree = ''1.2''\<rparr>)"
  unfolding styleSentence_def isGreeting_def isWeather_def isScheduling_def isReminder_def
    isSuggestion_def isOfferOfHelp_def isEnthusiasm_def
  by (rule refl)

lemma firstMatchingStyle_chain:
  "firstMatchingStyle l =
     (if isGreeting l then ''cheerful''
      else if isWeather l then ''friendly''
      else if isScheduling l then ''assistant''
      else if isReminder l then ''empathetic''
      else if isSuggestion l then ''hopeful''
      else if isOfferOfHelp l then ''friendly''
      else if isEnthusiasm l then ''excited''
      else ''friendly'')"
  by (simp add: firstMatchingStyle_def styleCategories_def)

lemma styleSentence_first_match:
  "trim s \<noteq> [] \<Longrightarrow>
     \<exists>p. styleSentence s = Some p \<and> style p = firstMatchingStyle (toLowerCase (trim s))"
  by (simp add: styleSentence_chain firstMatchingStyle_chain Let_def)

lemma map_filter_styles:
  "(\<And>s. s \<in> set xs \<Longrightarrow> trim s \<noteq> []) \<Longrightarrow>
     map style (List.map_filter styleSentence xs) = map (\<lambda>s. firstMatchingStyle (toLowerCase (trim s))) xs"
proof (induction xs)
  case Nil then show ?case by simp
next
  case (Cons x xs)
  then obtain p where "styleSentence x = Some p" "style p = firstMatchingStyle (toLowerCase (trim x))"
    using styleSentence_first_match [of x] by auto
  with Cons show ?case by simp
qed

text \<open>
  C5. On "Good morning! The weather is sunny." the classifier yields exactly two parts,
  the first with the style \<open>cheerful\<close>, the second with the style \<open>friendly\<close>. For every text,
  the style of each part is the style of the first category, in the order greeting,
  weather, scheduling, reminder, suggestion, offer of help, enthusiasm, whose keyword
  test the lower-cased trimmed sentence passes, and \<open>friendly\<close> when none does.
\<close>

theorem style_classifier_first_match:
  "styledParts ''Good morning! The weather is sunny.'' =
     [\<lparr>part_text = ''Good morning.'', style = ''cheerful'', degree = ''1.4''\<rparr>,
      \<lparr>part_text = ''The weather is sunny.'', style = ''friendly'', degree = ''1.2''\<rparr>] \<and>
   map style (styledParts txt) =
     map (\<lambda>s. firstMatchingStyle (toLowerCase (trim s)))
       (filter (\<lambda>s. length (trim s) > 0) (splitSentences txt))"
proof
  show "styledParts ''Good morning! The weather is sunny.'' =
     [\<lparr>part_text = ''Good morning.'', style = ''cheerful'', degree = ''1.4''\<rparr>,
      \<lparr>part_text = ''The weather is sunny.'', style = ''friendly'', degree = ''1.2''\<rparr>]"
    by code_simp
  show "map style (styledParts txt) =
     map (\<lambda>s. firstMatchingStyle (toLowerCase (trim s)))
       (filter (\<lambda>s. length (trim s) > 0) (splitSentences txt))"
    unfolding styledParts_def by (rule map_filter_styles) simp
qed

end
